theory Spec2Isabelle
  imports Main
begin

section \<open>Data model\<close>

text \<open>
  The types of \<^verbatim>\<open>types/index.ts\<close>. An interface is a record, an optional field
  (\<^verbatim>\<open>avatar?: string\<close>) is an \<open>option\<close>, a union of string literals is a datatype.
  All records of a theory share one name space, so a field name that two interfaces use
  is prefixed in all but one of them: \<^verbatim>\<open>User.id\<close> is \<open>user_id\<close>,
  \<^verbatim>\<open>AuthSession.id\<close> is \<open>session_id\<close>, \<^verbatim>\<open>AuthSession.createdAt\<close> is
  \<open>session_createdAt\<close>, the fields of \<^verbatim>\<open>AuthEvent\<close> carry the prefix \<open>ev_\<close>,
  \<^verbatim>\<open>LoginCredentials.email\<close> is \<open>cred_email\<close>, \<^verbatim>\<open>TwoFactorCode.method\<close> is
  \<open>code_method\<close>, and so on.

  A \<^verbatim>\<open>Date\<close> is its time value, the milliseconds since the epoch. A string is a list
  of 8-bit characters: the strings of the program whose code units are below 256, for
  which \<^verbatim>\<open>s.length\<close> is \<open>length s\<close>.
\<close>

type_synonym date = int

record User =
  user_id :: string
  email :: string
  name :: string
  avatar :: "string option"
  emailVerified :: bool
  twoFactorEnabled :: bool
  createdAt :: date
  lastLoginAt :: "date option"

datatype DeviceType = Mobile | Desktop | Tablet

record DeviceInfo =
  userAgent :: string
  ipAddress :: string
  deviceType :: DeviceType
  browser :: "string option"
  os :: "string option"

record AuthSession =
  session_id :: string
  userId :: string
  token :: string
  refreshToken :: "string option"
  expiresAt :: date
  session_createdAt :: date
  deviceInfo :: "DeviceInfo option"

record AuthFlowConfig =
  enable2FA :: bool
  enablePasswordReset :: bool
  enableOAuth :: bool
  sessionTimeout :: int
  maxLoginAttempts :: int
  lockoutDuration :: int

text \<open>\<^verbatim>\<open>Partial<AuthFlowConfig>\<close>: every field may be absent.\<close>

record PartialConfig =
  p_enable2FA :: "bool option"
  p_enablePasswordReset :: "bool option"
  p_enableOAuth :: "bool option"
  p_sessionTimeout :: "int option"
  p_maxLoginAttempts :: "int option"
  p_lockoutDuration :: "int option"

text \<open>
  \<^verbatim>\<open>LoginCredentials\<close>. The declared type of \<^verbatim>\<open>password\<close> is \<^verbatim>\<open>string\<close>, but
  the annotations are erased when the program runs and a caller can leave the field out;
  \<open>None\<close> is the missing (\<^verbatim>\<open>undefined\<close>) password, \<open>Some p\<close> a password that is
  the string \<open>p\<close>. \<^verbatim>\<open>rememberMe\<close> is optional in the source.
\<close>

record LoginCredentials =
  cred_email :: string
  password :: "string option"
  rememberMe :: "bool option"

datatype TwoFactorMethod = Sms | Email | Totp | App

record TwoFactorCode =
  code :: string
  code_method :: TwoFactorMethod

record PasswordResetRequest =
  reset_email :: string
  redirectUrl :: "string option"

record PasswordResetConfirm =
  reset_token :: string
  newPassword :: string

record OAuthCallback =
  oauth_code :: string
  oauth_state :: string
  provider :: string

record AuthResult =
  success :: bool
  user :: "User option"
  session :: "AuthSession option"
  error :: "string option"
  requires2FA :: "bool option"
  requiresPasswordReset :: "bool option"

datatype AuthEventType =
    LoginAttempt
  | LoginSuccess
  | LoginFailure
  | TwoFARequired
  | TwoFASuccess
  | TwoFAFailure
  | PasswordResetRequested
  | PasswordResetCompleted
  | OAuthInitiated
  | OAuthCallbackEvent
  | SessionCreated
  | SessionExpired
  | Logout

text \<open>
  \<^verbatim>\<open>AuthEvent\<close>. The payload \<^verbatim>\<open>data\<close> is an object whose values are strings in
  every call of \<^verbatim>\<open>emitEvent\<close>: an association list in the order of the object literal.
\<close>

record AuthEvent =
  ev_type :: AuthEventType
  timestamp :: date
  ev_userId :: "string option"
  ev_sessionId :: "string option"
  ev_data :: "(string \<times> string) list option"
  ev_success :: bool
  ev_error :: "string option"

record SimulatorState =
  users :: "User list"
  sessions :: "AuthSession list"
  events :: "AuthEvent list"
  config :: AuthFlowConfig
  isRunning :: bool

record SimulatorOptions =
  opt_config :: "PartialConfig option"
  mockUsers :: "User list option"
  enableLogging :: "bool option"
  delayMs :: "int option"

section \<open>The simulator object and its platform\<close>

text \<open>
  The simulator reads the system clock (\<^verbatim>\<open>new Date()\<close>, \<^verbatim>\<open>Date.now()\<close>) and the
  random source (\<^verbatim>\<open>Math.random()\<close>). Both are inputs of the model: \<open>clock w k\<close> is
  what the \<open>k\<close>-th reading of the clock returns and \<open>rand_digits w k\<close> is the string
  \<^verbatim>\<open>Math.random().toString(36).substring(2)\<close> of the \<open>k\<close>-th call, with counters of
  the readings made so far. The private fields \<^verbatim>\<open>state\<close> and \<^verbatim>\<open>options\<close> of the class
  \<^verbatim>\<open>AuthFlowSimulator\<close> are the fields \<open>state\<close> and \<open>options\<close>.

  \<^verbatim>\<open>delay()\<close> only waits and \<^verbatim>\<open>log()\<close> only writes to the console; neither touches
  \<open>state\<close>, and the model leaves both out. Every method is a function from the world
  before the call to the result and the world after it.
\<close>

record World =
  state :: SimulatorState
  options :: SimulatorOptions
  clock :: "nat \<Rightarrow> date"
  clock_reads :: nat
  rand_digits :: "nat \<Rightarrow> string"
  random_calls :: nat

definition Date_now :: "World \<Rightarrow> date \<times> World" where
  "Date_now w = (clock w (clock_reads w), w\<lparr>clock_reads := Suc (clock_reads w)\<rparr>)"

definition Math_random_digits :: "World \<Rightarrow> string \<times> World" where
  "Math_random_digits w = (rand_digits w (random_calls w), w\<lparr>random_calls := Suc (random_calls w)\<rparr>)"

subsection \<open>utils/helpers.ts\<close>

definition digit36 :: "nat \<Rightarrow> char" where
  "digit36 d = ''0123456789abcdefghijklmnopqrstuvwxyz'' ! d"

text \<open>\<^verbatim>\<open>Number.prototype.toString(36)\<close> on an integer.\<close>

fun toString36_nat :: "nat \<Rightarrow> string" where
  "toString36_nat n =
     (if n < 36 then [digit36 n] else toString36_nat (n div 36) @ [digit36 (n mod 36)])"

declare toString36_nat.simps [simp del]

definition toString36 :: "int \<Rightarrow> string" where
  "toString36 i = (if i < 0 then CHR ''-'' # toString36_nat (nat (- i)) else toString36_nat (nat i))"

text \<open>
  \<^verbatim>\<open>return Math.random().toString(36).substring(2) + Date.now().toString(36);\<close>
  The left operand is evaluated first.
\<close>

definition generateId :: "World \<Rightarrow> string \<times> World" where
  "generateId w =
     (let (r, w1) = Math_random_digits w;
          (t, w2) = Date_now w1
      in (r @ toString36 t, w2))"

definition hexDigit :: "nat \<Rightarrow> char" where
  "hexDigit d = ''0123456789ABCDEF'' ! d"

definition percentByte :: "nat \<Rightarrow> string" where
  "percentByte b = [CHR ''%'', hexDigit (b div 16), hexDigit (b mod 16)]"

definition uriUnreserved :: "char \<Rightarrow> bool" where
  "uriUnreserved c \<longleftrightarrow>
     c \<in> set (''ABCDEFGHIJKLMNOPQRSTUVWXYZabcdefghijklmnopqrstuvwxyz0123456789'' @ ''-_.!~*()'' @ [CHR 0x27])"

text \<open>
  The built-in \<^verbatim>\<open>encodeURIComponent\<close> on code units below 256: an unreserved character
  stays, every other one is written as the escaped bytes of its UTF-8 encoding.
\<close>

definition encodeChar :: "char \<Rightarrow> string" where
  "encodeChar c =
     (let n = (of_char c :: nat) in
      if uriUnreserved c then [c]
      else if n < 128 then percentByte n
      else percentByte (192 + n div 64) @ percentByte (128 + n mod 64))"

definition encodeURIComponent :: "string \<Rightarrow> string" where
  "encodeURIComponent s = concat (map encodeChar s)"

text \<open>
  \<^verbatim>\<open>createMockUser(email, name, twoFactorEnabled = false)\<close>. The fields of the object
  literal are evaluated in order: the id first, the creation date last. Every caller in
  the simulator passes the third argument.
\<close>

definition createMockUser :: "string \<Rightarrow> string \<Rightarrow> bool \<Rightarrow> World \<Rightarrow> User \<times> World" where
  "createMockUser email' name' twoFactorEnabled' w =
     (let (i, w1) = generateId w;
          (d, w2) = Date_now w1
      in (\<lparr>user_id = i,
           email = email',
           name = name',
           avatar = Some (''https://ui-avatars.com/api/?name='' @ encodeURIComponent name'
                          @ ''&background=random''),
           emailVerified = True,
           twoFactorEnabled = twoFactorEnabled',
           createdAt = d,
           lastLoginAt = None\<rparr>, w2))"

subsection \<open>simulators/AuthFlowSimulator.ts: private methods\<close>

definition createDefaultUsers :: "World \<Rightarrow> User list \<times> World" where
  "createDefaultUsers w =
     (let (u1, w1) = createMockUser ''john@example.com'' ''John Doe'' True w;
          (u2, w2) = createMockUser ''jane@example.com'' ''Jane Smith'' False w1;
          (u3, w3) = createMockUser ''admin@example.com'' ''Admin User'' True w2
      in ([u1, u2, u3], w3))"

text \<open>\<^verbatim>\<open>Array.prototype.find\<close> is \<^const>\<open>find\<close>: the first element that satisfies the test.\<close>

definition findUserByEmail :: "string \<Rightarrow> World \<Rightarrow> User option" where
  "findUserByEmail e w = find (\<lambda>u. email u = e) (users (state w))"

definition findUserById :: "string \<Rightarrow> World \<Rightarrow> User option" where
  "findUserById i w = find (\<lambda>u. user_id u = i) (users (state w))"

text \<open>
  \<^verbatim>\<open>return password.length >= 6;\<close> Reading \<^verbatim>\<open>length\<close> of a missing password
  throws a \<^verbatim>\<open>TypeError\<close>.
\<close>

datatype exn = TypeError

definition validatePassword :: "User \<Rightarrow> string option \<Rightarrow> exn + bool" where
  "validatePassword u pw = (case pw of None \<Rightarrow> Inl TypeError | Some p \<Rightarrow> Inr (6 \<le> length p))"

definition isDigit :: "char \<Rightarrow> bool" where
  "isDigit c \<longleftrightarrow> c \<in> set ''0123456789''"

text \<open>
  \<^verbatim>\<open>/^\d{6}$/.test(code.code)\<close>: \<open>matchDigits n s\<close> consumes \<open>n\<close> digits from the
  front of \<open>s\<close> and returns what follows them; the anchors ask that the match starts
  the string and that nothing follows it (without the \<^verbatim>\<open>m\<close> flag, \<^verbatim>\<open>$\<close> is the end
  of the input).
\<close>

fun matchDigits :: "nat \<Rightarrow> string \<Rightarrow> string option" where
  "matchDigits 0 s = Some s"
| "matchDigits (Suc n) [] = None"
| "matchDigits (Suc n) (c # s) = (if isDigit c then matchDigits n s else None)"

definition validate2FACode :: "User \<Rightarrow> TwoFactorCode \<Rightarrow> bool" where
  "validate2FACode u c \<longleftrightarrow> matchDigits 6 (code c) = Some []"

definition emitEvent ::
  "AuthEventType \<Rightarrow> bool \<Rightarrow> (string \<times> string) list option \<Rightarrow> string option \<Rightarrow> World \<Rightarrow> World" where
  "emitEvent ty ok data err w =
     (let (t, w1) = Date_now w;
          event = \<lparr>ev_type = ty,
                   timestamp = t,
                   ev_userId = None,
                   ev_sessionId = None,
                   ev_data = Some (case data of None \<Rightarrow> [] | Some d \<Rightarrow> d),
                   ev_success = ok,
                   ev_error = (case err of None \<Rightarrow> None
                               | Some e \<Rightarrow> if e = [] then None else Some e)\<rparr>
      in w1\<lparr>state := (state w1)\<lparr>events := events (state w1) @ [event]\<rparr>\<rparr>)"

text \<open>
  \<^verbatim>\<open>createSession(user, rememberMe = false)\<close>: a missing \<^verbatim>\<open>rememberMe\<close> is
  \<^verbatim>\<open>false\<close>. 30 days are 2592000000 ms, 30 minutes are 1800000 ms.
\<close>

definition createSession :: "User \<Rightarrow> bool option \<Rightarrow> World \<Rightarrow> AuthSession \<times> World" where
  "createSession u remember w =
     (let rememberMe' = (case remember of None \<Rightarrow> False | Some b \<Rightarrow> b);
          (i, w1) = generateId w;
          (tok, w2) = generateId w1;
          (rtok, w3) = generateId w2;
          (t, w4) = Date_now w3;
          (c, w5) = Date_now w4;
          session' = \<lparr>session_id = i,
                      userId = user_id u,
                      token = tok,
                      refreshToken = Some rtok,
                      expiresAt = t + (if rememberMe' then 30 * 24 * 60 * 60 * 1000 else 30 * 60 * 1000),
                      session_createdAt = c,
                      deviceInfo = Some \<lparr>userAgent = ''AuthFlowSimulator/1.0.0'',
                                         ipAddress = ''127.0.0.1'',
                                         deviceType = Desktop,
                                         browser = None,
                                         os = None\<rparr>\<rparr>;
          w6 = w5\<lparr>state := (state w5)\<lparr>sessions := sessions (state w5) @ [session']\<rparr>\<rparr>
      in (session',
          emitEvent SessionCreated True
            (Some [(''userId'', user_id u), (''sessionId'', session_id session')]) None w6))"

definition findOrCreateOAuthUser :: "OAuthCallback \<Rightarrow> World \<Rightarrow> User \<times> World" where
  "findOrCreateOAuthUser callback w =
     (let email' = ''oauth-'' @ provider callback @ ''@example.com'' in
      case findUserByEmail email' w of
        Some u \<Rightarrow> (u, w)
      | None \<Rightarrow>
          (let (u, w1) = createMockUser email' (provider callback @ '' User'') False w
           in (u, w1\<lparr>state := (state w1)\<lparr>users := users (state w1) @ [u]\<rparr>\<rparr>)))"

subsection \<open>simulators/AuthFlowSimulator.ts: public methods\<close>

text \<open>
  The constructor. \<^verbatim>\<open>{enableLogging: true, delayMs: 100, ...options}\<close> and the
  configuration spread let a field that the caller gives override the default.
  \<^verbatim>\<open>options.mockUsers || this.createDefaultUsers()\<close> takes the caller's list when there
  is one (an empty array is truthy). The platform is given by its two feeds, read from
  their start.
\<close>

definition defaultConfig :: AuthFlowConfig where
  "defaultConfig =
     \<lparr>enable2FA = True, enablePasswordReset = True, enableOAuth = True,
      sessionTimeout = 30, maxLoginAttempts = 5, lockoutDuration = 15\<rparr>"

definition orDefault :: "'a option \<Rightarrow> 'a \<Rightarrow> 'a" where
  "orDefault given d = (case given of None \<Rightarrow> d | Some v \<Rightarrow> v)"

definition mergeConfig :: "AuthFlowConfig \<Rightarrow> PartialConfig option \<Rightarrow> AuthFlowConfig" where
  "mergeConfig d given =
     (case given of
        None \<Rightarrow> d
      | Some p \<Rightarrow>
          \<lparr>enable2FA = orDefault (p_enable2FA p) (enable2FA d),
           enablePasswordReset = orDefault (p_enablePasswordReset p) (enablePasswordReset d),
           enableOAuth = orDefault (p_enableOAuth p) (enableOAuth d),
           sessionTimeout = orDefault (p_sessionTimeout p) (sessionTimeout d),
           maxLoginAttempts = orDefault (p_maxLoginAttempts p) (maxLoginAttempts d),
           lockoutDuration = orDefault (p_lockoutDuration p) (lockoutDuration d)\<rparr>)"

definition newAuthFlowSimulator ::
  "SimulatorOptions \<Rightarrow> (nat \<Rightarrow> date) \<Rightarrow> (nat \<Rightarrow> string) \<Rightarrow> World" where
  "newAuthFlowSimulator opts clk rnd =
     (let w0 = \<lparr>state = \<lparr>users = [], sessions = [], events = [],
                           config = defaultConfig, isRunning = False\<rparr>,
                 options = opts\<lparr>enableLogging := Some (orDefault (enableLogging opts) True),
                                delayMs := Some (orDefault (delayMs opts) 100)\<rparr>,
                 clock = clk, clock_reads = 0, rand_digits = rnd, random_calls = 0\<rparr>;
          (us, w1) = (case mockUsers opts of
                        Some given \<Rightarrow> (given, w0)
                      | None \<Rightarrow> createDefaultUsers w0)
      in w1\<lparr>state := \<lparr>users = us, sessions = [], events = [],
                        config = mergeConfig defaultConfig (opt_config opts),
                        isRunning = False\<rparr>\<rparr>)"

definition start :: "World \<Rightarrow> World" where
  "start w = emitEvent LoginAttempt True None None (w\<lparr>state := (state w)\<lparr>isRunning := True\<rparr>\<rparr>)"

definition stop :: "World \<Rightarrow> World" where
  "stop w = emitEvent Logout True None None (w\<lparr>state := (state w)\<lparr>isRunning := False\<rparr>\<rparr>)"

text \<open>The result objects: a field that the object literal does not name is absent.\<close>

definition failure :: "string \<Rightarrow> AuthResult" where
  "failure msg = \<lparr>success = False, user = None, session = None, error = Some msg,
                  requires2FA = None, requiresPasswordReset = None\<rparr>"

definition successOnly :: AuthResult where
  "successOnly = \<lparr>success = True, user = None, session = None, error = None,
                  requires2FA = None, requiresPasswordReset = None\<rparr>"

definition successWith :: "User \<Rightarrow> AuthSession \<Rightarrow> AuthResult" where
  "successWith u s = \<lparr>success = True, user = Some u, session = Some s, error = None,
                      requires2FA = None, requiresPasswordReset = None\<rparr>"

text \<open>
  \<^verbatim>\<open>simulateLogin\<close>. The only statement that can throw is the password check; nothing
  has been written to the state when it does.
\<close>

definition simulateLogin :: "LoginCredentials \<Rightarrow> World \<Rightarrow> exn + AuthResult \<times> World" where
  "simulateLogin credentials w =
     (case findUserByEmail (cred_email credentials) w of
        None \<Rightarrow>
          Inr (failure ''Invalid credentials'',
               emitEvent LoginFailure False (Some [(''email'', cred_email credentials)])
                 (Some ''User not found'') w)
      | Some u \<Rightarrow>
          (case validatePassword u (password credentials) of
             Inl e \<Rightarrow> Inl e
           | Inr isValidPassword \<Rightarrow>
               if \<not> isValidPassword then
                 Inr (failure ''Invalid credentials'',
                      emitEvent LoginFailure False
                        (Some [(''userId'', user_id u), (''email'', cred_email credentials)])
                        (Some ''Invalid password'') w)
               else if twoFactorEnabled u then
                 Inr (\<lparr>success = False, user = Some u, session = None,
                       error = Some ''Two-factor authentication required'',
                       requires2FA = Some True, requiresPasswordReset = None\<rparr>,
                      emitEvent TwoFARequired True (Some [(''userId'', user_id u)]) None w)
               else
                 (let (s, w1) = createSession u (rememberMe credentials) w
                  in Inr (successWith u s,
                          emitEvent LoginSuccess True
                            (Some [(''userId'', user_id u), (''sessionId'', session_id s)])
                            None w1))))"

definition simulate2FA :: "string \<Rightarrow> TwoFactorCode \<Rightarrow> World \<Rightarrow> AuthResult \<times> World" where
  "simulate2FA uid c w =
     (case findUserById uid w of
        None \<Rightarrow> (failure ''User not found'', w)
      | Some u \<Rightarrow>
          if \<not> validate2FACode u c then
            (failure ''Invalid 2FA code'',
             emitEvent TwoFAFailure False (Some [(''userId'', uid)]) (Some ''Invalid 2FA code'') w)
          else
            (let (s, w1) = createSession u (Some False) w
             in (successWith u s,
                 emitEvent TwoFASuccess True
                   (Some [(''userId'', uid), (''sessionId'', session_id s)]) None w1)))"

definition simulatePasswordResetRequest :: "PasswordResetRequest \<Rightarrow> World \<Rightarrow> AuthResult \<times> World" where
  "simulatePasswordResetRequest request w =
     (case findUserByEmail (reset_email request) w of
        None \<Rightarrow>
          (successOnly,
           emitEvent PasswordResetRequested True (Some [(''email'', reset_email request)]) None w)
      | Some u \<Rightarrow>
          (let (resetToken, w1) = generateId w
           in (successOnly,
               emitEvent PasswordResetRequested True
                 (Some [(''userId'', user_id u), (''resetToken'', resetToken)]) None w1)))"

definition simulatePasswordResetConfirm :: "PasswordResetConfirm \<Rightarrow> World \<Rightarrow> AuthResult \<times> World" where
  "simulatePasswordResetConfirm confirm w =
     (successOnly,
      emitEvent PasswordResetCompleted True (Some [(''token'', reset_token confirm)]) None w)"

definition simulateOAuthCallback :: "OAuthCallback \<Rightarrow> World \<Rightarrow> AuthResult \<times> World" where
  "simulateOAuthCallback callback w =
     (let (u, w1) = findOrCreateOAuthUser callback w;
          (s, w2) = createSession u (Some False) w1
      in (successWith u s,
          emitEvent OAuthCallbackEvent True
            (Some [(''userId'', user_id u), (''sessionId'', session_id s),
                   (''provider'', provider callback)])
            None w2))"

text \<open>
  \<^verbatim>\<open>Array.prototype.findIndex\<close> (\<open>None\<close> for \<^verbatim>\<open>-1\<close>) and
  \<^verbatim>\<open>splice(index, 1)\<close>, which removes the element at the index.
\<close>

fun findIndex :: "('a \<Rightarrow> bool) \<Rightarrow> 'a list \<Rightarrow> nat option" where
  "findIndex P [] = None"
| "findIndex P (x # xs) = (if P x then Some 0 else map_option Suc (findIndex P xs))"

definition splice1 :: "nat \<Rightarrow> 'a list \<Rightarrow> 'a list" where
  "splice1 i xs = take i xs @ drop (Suc i) xs"

definition simulateLogout :: "string \<Rightarrow> World \<Rightarrow> AuthResult \<times> World" where
  "simulateLogout sessionId w =
     (case findIndex (\<lambda>s. session_id s = sessionId) (sessions (state w)) of
        None \<Rightarrow> (failure ''Session not found'', w)
      | Some sessionIndex \<Rightarrow>
          (successOnly,
           emitEvent Logout True (Some [(''sessionId'', sessionId)]) None
             (w\<lparr>state := (state w)\<lparr>sessions := splice1 sessionIndex (sessions (state w))\<rparr>\<rparr>)))"

text \<open>
  \<^verbatim>\<open>checkSession\<close>. The comparison \<^verbatim>\<open>session.expiresAt < new Date()\<close> reads the clock
  whenever the session is found.
\<close>

definition checkSession :: "string \<Rightarrow> World \<Rightarrow> AuthResult \<times> World" where
  "checkSession sessionId w =
     (case find (\<lambda>s. session_id s = sessionId) (sessions (state w)) of
        None \<Rightarrow>
          (failure ''Session not found'',
           emitEvent SessionExpired False (Some [(''sessionId'', sessionId)])
             (Some ''Session not found'') w)
      | Some s \<Rightarrow>
          (let (now, w1) = Date_now w in
           if expiresAt s < now then
             (failure ''Session expired'',
              emitEvent SessionExpired False (Some [(''sessionId'', sessionId)])
                (Some ''Session expired'')
                (w1\<lparr>state := (state w1)\<lparr>sessions :=
                       filter (\<lambda>s. session_id s \<noteq> sessionId) (sessions (state w1))\<rparr>\<rparr>))
           else
             (case findUserById (userId s) w1 of
                None \<Rightarrow> (failure ''User not found'', w1)
              | Some u \<Rightarrow> (successWith u s, w1))))"

text \<open>
  \<^verbatim>\<open>getState\<close> and \<^verbatim>\<open>getEvents\<close> as values: what a caller reads in the object and the
  array that they return. Which arrays the caller holds afterwards is the subject of the
  section on references below.
\<close>

definition getState :: "World \<Rightarrow> SimulatorState" where
  "getState w = state w"

definition getEvents :: "World \<Rightarrow> AuthEvent list" where
  "getEvents w = events (state w)"

definition reset :: "World \<Rightarrow> World" where
  "reset w =
     (let (us, w1) = createDefaultUsers w;
          w2 = w1\<lparr>state := (state w1)\<lparr>users := us\<rparr>\<rparr>;
          w3 = w2\<lparr>state := (state w2)\<lparr>sessions := []\<rparr>\<rparr>
      in w3\<lparr>state := (state w3)\<lparr>events := []\<rparr>\<rparr>)"

section \<open>Arrays as references\<close>

text \<open>
  The three lists of \<^verbatim>\<open>this.state\<close> are arrays: objects that the state object
  refers to. For what a caller can do with the value that \<^verbatim>\<open>getState()\<close> or
  \<^verbatim>\<open>getEvents()\<close> hands out, the arrays live in a store and the state object holds
  their references. \<open>stateOf\<close> reads the state of the simulator through the references,
  and \<open>store s\<close> is a simulator whose state is \<open>s\<close>, each list in an array of its own.
\<close>

type_synonym ref = nat

datatype array =
    UserArray "User list"
  | SessionArray "AuthSession list"
  | EventArray "AuthEvent list"

record StateObject =
  users_ref :: ref
  sessions_ref :: ref
  events_ref :: ref
  config_field :: AuthFlowConfig
  isRunning_field :: bool

record Store =
  this_state :: StateObject
  arrays :: "ref \<Rightarrow> array option"
  next_ref :: ref

text \<open>
  \<^verbatim>\<open>return { ...this.state };\<close> A new object with the values of the fields of
  \<^verbatim>\<open>this.state\<close>: for the three lists, the references themselves.
\<close>

definition getState_ref :: "Store \<Rightarrow> StateObject \<times> Store" where
  "getState_ref st = (this_state st, st)"

text \<open>\<^verbatim>\<open>return [...this.state.events];\<close> A new array with the elements of the log.\<close>

definition getEvents_ref :: "Store \<Rightarrow> ref \<times> Store" where
  "getEvents_ref st =
     (let r = next_ref st
      in (r, st\<lparr>arrays := (arrays st)(r := arrays st (events_ref (this_state st))),
                next_ref := Suc r\<rparr>))"

text \<open>
  What a caller does with an array that it holds: \<^verbatim>\<open>a.push(...)\<close> appends to the
  array behind the reference.
\<close>

definition push :: "ref \<Rightarrow> array \<Rightarrow> Store \<Rightarrow> Store" where
  "push r new st =
     (case (arrays st r, new) of
        (Some (UserArray xs), UserArray ys) \<Rightarrow>
          st\<lparr>arrays := (arrays st)(r \<mapsto> UserArray (xs @ ys))\<rparr>
      | (Some (SessionArray xs), SessionArray ys) \<Rightarrow>
          st\<lparr>arrays := (arrays st)(r \<mapsto> SessionArray (xs @ ys))\<rparr>
      | (Some (EventArray xs), EventArray ys) \<Rightarrow>
          st\<lparr>arrays := (arrays st)(r \<mapsto> EventArray (xs @ ys))\<rparr>
      | _ \<Rightarrow> st)"

definition usersOf :: "array option \<Rightarrow> User list" where
  "usersOf a = (case a of Some (UserArray xs) \<Rightarrow> xs | _ \<Rightarrow> [])"

definition sessionsOf :: "array option \<Rightarrow> AuthSession list" where
  "sessionsOf a = (case a of Some (SessionArray xs) \<Rightarrow> xs | _ \<Rightarrow> [])"

definition eventsOf :: "array option \<Rightarrow> AuthEvent list" where
  "eventsOf a = (case a of Some (EventArray xs) \<Rightarrow> xs | _ \<Rightarrow> [])"

definition stateOf :: "Store \<Rightarrow> SimulatorState" where
  "stateOf st =
     \<lparr>users = usersOf (arrays st (users_ref (this_state st))),
      sessions = sessionsOf (arrays st (sessions_ref (this_state st))),
      events = eventsOf (arrays st (events_ref (this_state st))),
      config = config_field (this_state st),
      isRunning = isRunning_field (this_state st)\<rparr>"

definition store :: "SimulatorState \<Rightarrow> Store" where
  "store s =
     \<lparr>this_state = \<lparr>users_ref = 0, sessions_ref = 1, events_ref = 2,
                     config_field = config s, isRunning_field = isRunning s\<rparr>,
      arrays = [0 \<mapsto> UserArray (users s), 1 \<mapsto> SessionArray (sessions s),
                2 \<mapsto> EventArray (events s)],
      next_ref = 3\<rparr>"

section \<open>Observations\<close>

text \<open>The event that \<open>emitEvent\<close> builds, with the payload and the message as stored.\<close>

definition emitted ::
  "AuthEventType \<Rightarrow> date \<Rightarrow> bool \<Rightarrow> (string \<times> string) list \<Rightarrow> string option \<Rightarrow> AuthEvent" where
  "emitted ty t ok d e =
     \<lparr>ev_type = ty, timestamp = t, ev_userId = None, ev_sessionId = None,
      ev_data = Some d, ev_success = ok, ev_error = e\<rparr>"

text \<open>
  \<open>appended w w'\<close> is the list of the types of the events that the log of \<open>w'\<close> has
  after those of \<open>w\<close>, and \<open>None\<close> when the log of \<open>w'\<close> does not start with the log
  of \<open>w\<close>.
\<close>

definition appended :: "World \<Rightarrow> World \<Rightarrow> AuthEventType list option" where
  "appended w w' =
     (let old = events (state w); new = events (state w')
      in if take (length old) new = old then Some (map ev_type (drop (length old) new))
         else None)"

text \<open>
  Two properties of a state that the data model asks for and that no method checks: the
  ids of the active sessions are pairwise distinct, and so are the emails of the users.
\<close>

definition uniqueSessionIds :: "World \<Rightarrow> bool" where
  "uniqueSessionIds w \<longleftrightarrow> distinct (map session_id (sessions (state w)))"

definition uniqueEmails :: "World \<Rightarrow> bool" where
  "uniqueEmails w \<longleftrightarrow> distinct (map email (users (state w)))"

section \<open>Example data\<close>

text \<open>
  Two users as in the test suites of the repository, a third one that shares the email of
  the second, a clock that advances by a millisecond per reading, and a clock that jumps
  by 31 minutes after its seventh reading.
\<close>

definition adminUser :: User where
  "adminUser = \<lparr>user_id = ''1'', email = ''admin@example.com'', name = ''Admin User'',
                avatar = None, emailVerified = True, twoFactorEnabled = True,
                createdAt = 0, lastLoginAt = None\<rparr>"

definition regularUser :: User where
  "regularUser = \<lparr>user_id = ''2'', email = ''user@example.com'', name = ''Regular User'',
                  avatar = None, emailVerified = True, twoFactorEnabled = False,
                  createdAt = 0, lastLoginAt = None\<rparr>"

definition secondAdmin :: User where
  "secondAdmin = \<lparr>user_id = ''3'', email = ''user@example.com'', name = ''Second Admin'',
                  avatar = None, emailVerified = True, twoFactorEnabled = True,
                  createdAt = 0, lastLoginAt = None\<rparr>"

definition exampleClock :: "nat \<Rightarrow> date" where
  "exampleClock k = 1700000000000 + int k"

definition lateClock :: "nat \<Rightarrow> date" where
  "lateClock k =
     (if k < 7 then 1700000000000 + int k else 1700000000000 + 31 * 60 * 1000 + int k)"

definition exampleRandom :: "nat \<Rightarrow> string" where
  "exampleRandom k = ''r'' @ toString36_nat k"

definition testOptions :: "User list option \<Rightarrow> SimulatorOptions" where
  "testOptions us =
     \<lparr>opt_config = None, mockUsers = us, enableLogging = Some False, delayMs = Some 0\<rparr>"

definition testWorld :: World where
  "testWorld =
     newAuthFlowSimulator (testOptions (Some [adminUser, regularUser])) exampleClock exampleRandom"

definition loginCredentials :: LoginCredentials where
  "loginCredentials =
     \<lparr>cred_email = ''user@example.com'', password = Some ''password123'', rememberMe = None\<rparr>"

definition lateWorld :: World where
  "lateWorld =
     newAuthFlowSimulator (testOptions (Some [adminUser, regularUser])) lateClock exampleRandom"

text \<open>
  The world after a login at \<open>lateWorld\<close>, and the session of that login: the next
  reading of the clock is more than 30 minutes after the session was created.
\<close>

definition staleSession :: AuthSession where
  "staleSession = fst (createSession regularUser None lateWorld)"

definition staleWorld :: World where
  "staleWorld =
     (case simulateLogin loginCredentials lateWorld of
        Inr (r, w') \<Rightarrow> w'
      | Inl e \<Rightarrow> lateWorld)"

definition forgedSession :: AuthSession where
  "forgedSession =
     \<lparr>session_id = ''forged'', userId = ''1'', token = ''t'', refreshToken = None,
      expiresAt = 9999999999999, session_createdAt = 0, deviceInfo = None\<rparr>"
















section \<open>Lemmas about the methods\<close>

subsection \<open>The platform and the private methods\<close>

lemma Date_now_simps [simp]:
  "fst (Date_now w) = clock w (clock_reads w)"
  "state (snd (Date_now w)) = state w"
  "clock (snd (Date_now w)) = clock w"
  "clock_reads (snd (Date_now w)) = Suc (clock_reads w)"
  "rand_digits (snd (Date_now w)) = rand_digits w"
  "random_calls (snd (Date_now w)) = random_calls w"
  by (simp_all add: Date_now_def)

lemma generateId_simps [simp]:
  "state (snd (generateId w)) = state w"
  "clock (snd (generateId w)) = clock w"
  "clock_reads (snd (generateId w)) = Suc (clock_reads w)"
  "rand_digits (snd (generateId w)) = rand_digits w"
  "random_calls (snd (generateId w)) = Suc (random_calls w)"
  by (simp_all add: generateId_def Math_random_digits_def Date_now_def)

lemma emitEvent_simps [simp]:
  "users (state (emitEvent ty ok d e w)) = users (state w)"
  "sessions (state (emitEvent ty ok d e w)) = sessions (state w)"
  "config (state (emitEvent ty ok d e w)) = config (state w)"
  "isRunning (state (emitEvent ty ok d e w)) = isRunning (state w)"
  "clock (emitEvent ty ok d e w) = clock w"
  "clock_reads (emitEvent ty ok d e w) = Suc (clock_reads w)"
  by (simp_all add: emitEvent_def case_prod_beta)

lemma emitted_simps [simp]:
  "ev_type (emitted ty t ok d e) = ty"
  "ev_success (emitted ty t ok d e) = ok"
  "ev_error (emitted ty t ok d e) = e"
  "ev_data (emitted ty t ok d e) = Some d"
  "timestamp (emitted ty t ok d e) = t"
  by (simp_all add: emitted_def)

text \<open>\<open>emitEvent\<close> appends one event, stamped with the next reading of the clock.\<close>

lemma events_emitEvent:
  "events (state (emitEvent ty ok d e w)) =
     events (state w) @
       [emitted ty (clock w (clock_reads w)) ok (case d of None \<Rightarrow> [] | Some x \<Rightarrow> x)
          (case e of None \<Rightarrow> None | Some m \<Rightarrow> if m = [] then None else Some m)]"
  by (simp add: emitEvent_def case_prod_beta emitted_def)

text \<open>
  \<open>createSession\<close> reads the clock six times: three identifiers, the expiry, the
  creation date and the event. The expiry is computed from the fourth reading.
\<close>

lemma createSession_simps:
  "userId (fst (createSession u rm w)) = user_id u"
  "expiresAt (fst (createSession u rm w)) =
     clock w (clock_reads w + 3) +
       (if rm = Some True then 30 * 24 * 60 * 60 * 1000 else 30 * 60 * 1000)"
  "sessions (state (snd (createSession u rm w))) =
     sessions (state w) @ [fst (createSession u rm w)]"
  "users (state (snd (createSession u rm w))) = users (state w)"
  "clock (snd (createSession u rm w)) = clock w"
  "clock_reads (snd (createSession u rm w)) = clock_reads w + 6"
  by (simp_all add: createSession_def Let_def case_prod_beta eval_nat_numeral
      split: option.splits)

lemma events_createSession:
  "events (state (snd (createSession u rm w))) =
     events (state w) @
       [emitted SessionCreated (clock w (clock_reads w + 5)) True
          [(''userId'', user_id u), (''sessionId'', session_id (fst (createSession u rm w)))]
          None]"
  by (simp add: createSession_def Let_def case_prod_beta events_emitEvent eval_nat_numeral)

lemma events_findOrCreateOAuthUser [simp]:
  "events (state (snd (findOrCreateOAuthUser cb w))) = events (state w)"
  by (simp add: findOrCreateOAuthUser_def createMockUser_def Let_def case_prod_beta
      split: option.splits)

subsection \<open>The pattern of the 2FA code\<close>

lemma matchDigits_iff:
  "matchDigits n s = Some r \<longleftrightarrow> n \<le> length s \<and> list_all isDigit (take n s) \<and> r = drop n s"
  by (induction n s rule: matchDigits.induct) auto

lemma validate2FACode_iff:
  "validate2FACode u c \<longleftrightarrow> length (code c) = 6 \<and> list_all isDigit (code c)"
  by (auto simp: validate2FACode_def matchDigits_iff)

subsection \<open>Lookups\<close>

lemma findIndex_None_iff: "findIndex P xs = None \<longleftrightarrow> (\<forall>x \<in> set xs. \<not> P x)"
  by (induction xs) auto

lemma find_distinct_key:
  "x \<in> set xs \<Longrightarrow> distinct (map f xs) \<Longrightarrow> find (\<lambda>y. f y = f x) xs = Some x"
  by (induction xs) auto

text \<open>In a directory whose emails are pairwise distinct, every user is found by its email.\<close>

lemma findUserByEmail_distinct:
  "u \<in> set (users (state w)) \<Longrightarrow> distinct (map email (users (state w))) \<Longrightarrow>
   findUserByEmail (email u) w = Some u"
  by (simp add: findUserByEmail_def find_distinct_key)



subsection \<open>Unique session ids and unique emails\<close>

text \<open>
  A new simulator has no session. Logout and the session check keep the ids of the
  sessions distinct; a method that creates a session (login, 2FA, OAuth callback) keeps
  them distinct when the id that \<open>generateId\<close> returns for the session is not the id
  of an active session. Nothing in the code makes it so.
\<close>

lemma uniqueSessionIds_identifies:
  "uniqueSessionIds w \<Longrightarrow> s \<in> set (sessions (state w)) \<Longrightarrow>
   \<forall>t \<in> set (sessions (state w)). session_id t = session_id s \<longrightarrow> t = s"
  by (auto simp: uniqueSessionIds_def distinct_map inj_on_def)

lemma session_id_createSession:
  "session_id (fst (createSession u rm w)) = fst (generateId w)"
  by (simp add: createSession_def Let_def case_prod_beta)

lemma uniqueSessionIds_emitEvent [simp]:
  "uniqueSessionIds (emitEvent ty ok d e w) = uniqueSessionIds w"
  by (simp add: uniqueSessionIds_def)

lemma uniqueSessionIds_createSession:
  "uniqueSessionIds w \<Longrightarrow> fst (generateId w) \<notin> session_id ` set (sessions (state w)) \<Longrightarrow>
   uniqueSessionIds (snd (createSession u rm w))"
  by (simp add: uniqueSessionIds_def createSession_simps session_id_createSession)

lemma set_splice1: "set (splice1 i xs) \<subseteq> set xs"
  by (auto simp: splice1_def dest: in_set_takeD in_set_dropD)

lemma splice1_Cons: "splice1 (Suc i) (x # xs) = x # splice1 i xs"
  by (simp add: splice1_def)

lemma distinct_map_splice1: "distinct (map f xs) \<Longrightarrow> distinct (map f (splice1 i xs))"
proof (induction xs arbitrary: i)
  case Nil
  then show ?case by (simp add: splice1_def)
next
  case (Cons x xs)
  show ?case
  proof (cases i)
    case 0
    with Cons.prems show ?thesis by (simp add: splice1_def)
  next
    case (Suc j)
    with Cons set_splice1 [of j xs] show ?thesis
      by (auto simp: splice1_Cons)
  qed
qed

lemma uniqueSessionIds_new: "uniqueSessionIds (newAuthFlowSimulator opts clk rnd)"
  by (simp add: newAuthFlowSimulator_def uniqueSessionIds_def Let_def case_prod_beta)

lemma uniqueSessionIds_simulateLogout:
  "uniqueSessionIds w \<Longrightarrow> uniqueSessionIds (snd (simulateLogout sid w))"
  by (simp add: simulateLogout_def uniqueSessionIds_def distinct_map_splice1
      split: option.splits)

lemma uniqueSessionIds_checkSession:
  "uniqueSessionIds w \<Longrightarrow> uniqueSessionIds (snd (checkSession sid w))"
  by (simp add: checkSession_def uniqueSessionIds_def case_prod_beta distinct_map_filter
      split: option.splits)

lemma uniqueSessionIds_simulateLogin:
  assumes "uniqueSessionIds w"
    and "fst (generateId w) \<notin> session_id ` set (sessions (state w))"
    and "simulateLogin c w = Inr (r, w')"
  shows "uniqueSessionIds w'"
  using assms uniqueSessionIds_createSession [of w]
  by (auto simp: simulateLogin_def case_prod_beta split: option.splits sum.splits if_splits)

lemma uniqueSessionIds_simulate2FA:
  assumes "uniqueSessionIds w"
    and "fst (generateId w) \<notin> session_id ` set (sessions (state w))"
  shows "uniqueSessionIds (snd (simulate2FA uid c w))"
  using assms uniqueSessionIds_createSession [of w]
  by (auto simp: simulate2FA_def case_prod_beta split: option.splits)

lemma sessions_findOrCreateOAuthUser:
  "sessions (state (snd (findOrCreateOAuthUser cb w))) = sessions (state w)"
  by (simp add: findOrCreateOAuthUser_def createMockUser_def Let_def case_prod_beta
      split: option.splits)

lemma uniqueSessionIds_simulateOAuthCallback:
  assumes "uniqueSessionIds w"
    and "fst (generateId (snd (findOrCreateOAuthUser cb w)))
           \<notin> session_id ` set (sessions (state w))"
  shows "uniqueSessionIds (snd (simulateOAuthCallback cb w))"
proof -
  let ?w1 = "snd (findOrCreateOAuthUser cb w)"
  from assms have "uniqueSessionIds ?w1"
    and "fst (generateId ?w1) \<notin> session_id ` set (sessions (state ?w1))"
    by (simp_all add: uniqueSessionIds_def sessions_findOrCreateOAuthUser)
  then have "uniqueSessionIds (snd (createSession u rm ?w1))" for u rm
    by (rule uniqueSessionIds_createSession)
  then show ?thesis
    by (simp add: simulateOAuthCallback_def case_prod_beta)
qed

text \<open>
  The emails: the OAuth callback adds a user only when its email resolves to none, and
  \<open>reset\<close> installs the default users, whose emails differ. No other method writes the
  users, so the emails stay distinct when those of \<open>mockUsers\<close> are.
\<close>

lemma uniqueEmails_emitEvent [simp]: "uniqueEmails (emitEvent ty ok d e w) = uniqueEmails w"
  by (simp add: uniqueEmails_def)

lemma uniqueEmails_createSession [simp]:
  "uniqueEmails (snd (createSession u rm w)) = uniqueEmails w"
  by (simp add: uniqueEmails_def createSession_simps)

lemma uniqueEmails_findOrCreateOAuthUser:
  "uniqueEmails w \<Longrightarrow> uniqueEmails (snd (findOrCreateOAuthUser cb w))"
  by (auto simp: findOrCreateOAuthUser_def uniqueEmails_def findUserByEmail_def Let_def
      createMockUser_def case_prod_beta find_None_iff split: option.splits)

lemma uniqueEmails_simulateOAuthCallback:
  "uniqueEmails w \<Longrightarrow> uniqueEmails (snd (simulateOAuthCallback cb w))"
  by (simp add: simulateOAuthCallback_def case_prod_beta uniqueEmails_findOrCreateOAuthUser)

lemma uniqueEmails_reset: "uniqueEmails (reset w)"
proof -
  have "map email (fst (createDefaultUsers w)) =
        [''john@example.com'', ''jane@example.com'', ''admin@example.com'']"
    by (simp add: createDefaultUsers_def createMockUser_def case_prod_beta)
  then show ?thesis
    by (simp add: reset_def uniqueEmails_def Let_def case_prod_beta)
qed

lemma uniqueEmails_resolves:
  "uniqueEmails w \<Longrightarrow> u \<in> set (users (state w)) \<Longrightarrow> findUserByEmail (email u) w = Some u"
  by (simp add: uniqueEmails_def findUserByEmail_distinct)

subsection \<open>The events that a call appends\<close>

lemma appended_refl: "appended w w = Some []"
  by (simp add: appended_def)

lemma appended_emitEvent:
  "events (state w1) = events (state w) @ evs \<Longrightarrow>
   appended w (emitEvent ty ok d e w1) = Some (map ev_type evs @ [ty])"
  by (simp add: appended_def events_emitEvent)

lemma appended_emitEvent0: "appended w (emitEvent ty ok d e w) = Some [ty]"
  using appended_emitEvent [of w w "[]"] by simp

lemma appended_login:
  "case simulateLogin c w of
     Inl e \<Rightarrow> True
   | Inr (r, w') \<Rightarrow>
       appended w w' =
         Some (if success r then [SessionCreated, LoginSuccess]
               else if requires2FA r = Some True then [TwoFARequired]
               else [LoginFailure])"
  by (simp add: simulateLogin_def validatePassword_def failure_def successWith_def
      case_prod_beta appended_emitEvent0 appended_emitEvent [OF events_createSession]
      split: option.splits)

lemma appended_2FA:
  "appended w (snd (simulate2FA uid cd w)) =
     Some (if success (fst (simulate2FA uid cd w)) then [SessionCreated, TwoFASuccess]
           else if findUserById uid w = None then []
           else [TwoFAFailure])"
  by (simp add: simulate2FA_def failure_def successWith_def case_prod_beta appended_refl
      appended_emitEvent0 appended_emitEvent [OF events_createSession]
      split: option.splits)

lemma appended_oauth:
  "appended w (snd (simulateOAuthCallback cb w)) = Some [SessionCreated, OAuthCallbackEvent]"
proof -
  let ?w1 = "snd (findOrCreateOAuthUser cb w)"
  have "events (state (snd (createSession u rm ?w1))) =
        events (state w) @
          [emitted SessionCreated (clock ?w1 (clock_reads ?w1 + 5)) True
             [(''userId'', user_id u), (''sessionId'', session_id (fst (createSession u rm ?w1)))]
             None]"
    for u rm
    by (simp add: events_createSession)
  from appended_emitEvent [OF this] show ?thesis
    by (simp add: simulateOAuthCallback_def case_prod_beta)
qed

lemma appended_reset_request:
  "appended w (snd (simulatePasswordResetRequest rq w)) = Some [PasswordResetRequested]"
proof (cases "findUserByEmail (reset_email rq) w")
  case None
  then show ?thesis by (simp add: simulatePasswordResetRequest_def appended_emitEvent0)
next
  case (Some u)
  have "events (state (snd (generateId w))) = events (state w) @ []" by simp
  from appended_emitEvent [OF this] Some show ?thesis
    by (simp add: simulatePasswordResetRequest_def case_prod_beta)
qed

lemma appended_reset_confirm:
  "appended w (snd (simulatePasswordResetConfirm cf w)) = Some [PasswordResetCompleted]"
  by (simp add: simulatePasswordResetConfirm_def appended_emitEvent0)

lemma appended_logout:
  "appended w (snd (simulateLogout sid w)) =
     Some (if success (fst (simulateLogout sid w)) then [Logout] else [])"
proof (cases "findIndex (\<lambda>s. session_id s = sid) (sessions (state w))")
  case None
  then show ?thesis by (simp add: simulateLogout_def failure_def appended_refl)
next
  case (Some i)
  have "events (state (w\<lparr>state := (state w)\<lparr>sessions := xs\<rparr>\<rparr>)) = events (state w) @ []" for xs
    by simp
  from appended_emitEvent [OF this] Some show ?thesis
    by (simp add: simulateLogout_def successOnly_def)
qed

lemma appended_checkSession:
  "appended w (snd (checkSession sid w)) =
     Some (if success (fst (checkSession sid w))
              \<or> error (fst (checkSession sid w)) = Some ''User not found''
           then [] else [SessionExpired])"
proof (cases "find (\<lambda>s. session_id s = sid) (sessions (state w))")
  case None
  then show ?thesis by (simp add: checkSession_def failure_def appended_emitEvent0)
next
  case (Some s)
  let ?w1 = "snd (Date_now w)"
  have a: "events (state (?w1\<lparr>state := (state ?w1)\<lparr>sessions := xs\<rparr>\<rparr>)) = events (state w) @ []"
    for xs
    by simp
  have b: "appended w ?w1 = Some []"
    by (simp add: appended_def)
  from appended_emitEvent [OF a] b Some show ?thesis
    by (simp add: checkSession_def failure_def successWith_def case_prod_beta
        split: option.splits)
qed

lemma appended_start_stop:
  "appended w (start w) = Some [LoginAttempt]"
  "appended w (stop w) = Some [Logout]"
proof -
  have "events (state (w\<lparr>state := (state w)\<lparr>isRunning := b\<rparr>\<rparr>)) = events (state w) @ []" for b
    by simp
  from appended_emitEvent [OF this]
  show "appended w (start w) = Some [LoginAttempt]" "appended w (stop w) = Some [Logout]"
    by (simp_all add: start_def stop_def)
qed

lemma events_reset: "events (state (reset w)) = []"
  by (simp add: reset_def Let_def case_prod_beta)

subsection \<open>The default users\<close>

lemma createDefaultUsers_fields:
  "map (\<lambda>u. (email u, name u, twoFactorEnabled u)) (fst (createDefaultUsers w)) =
     [(''john@example.com'', ''John Doe'', True),
      (''jane@example.com'', ''Jane Smith'', False),
      (''admin@example.com'', ''Admin User'', True)]"
  by (simp add: createDefaultUsers_def createMockUser_def case_prod_beta)

lemma users_newAuthFlowSimulator_default:
  "users (state (newAuthFlowSimulator (opts\<lparr>mockUsers := None\<rparr>) clk rnd)) =
     fst (createDefaultUsers
       \<lparr>state = \<lparr>users = [], sessions = [], events = [], config = defaultConfig,
                  isRunning = False\<rparr>,
        options = opts\<lparr>mockUsers := None,
                       enableLogging := Some (orDefault (enableLogging opts) True),
                       delayMs := Some (orDefault (delayMs opts) 100)\<rparr>,
        clock = clk, clock_reads = 0, rand_digits = rnd, random_calls = 0\<rparr>)"
  by (simp add: newAuthFlowSimulator_def Let_def case_prod_beta)

lemma default_users_fields:
  "map (\<lambda>u. (email u, name u, twoFactorEnabled u))
       (users (state (newAuthFlowSimulator (opts\<lparr>mockUsers := None\<rparr>) clk rnd))) =
     [(''john@example.com'', ''John Doe'', True),
      (''jane@example.com'', ''Jane Smith'', False),
      (''admin@example.com'', ''Admin User'', True)]"
  unfolding users_newAuthFlowSimulator_default by (rule createDefaultUsers_fields)

lemma testOptions_None: "testOptions None = (testOptions None)\<lparr>mockUsers := None\<rparr>"
  by (simp add: testOptions_def)

subsection \<open>The arrays\<close>

lemma stateOf_store: "stateOf (store s) = s"
  by (simp add: stateOf_def store_def usersOf_def sessionsOf_def eventsOf_def)

text \<open>What a caller reads through the object of \<open>getState_ref\<close> is \<open>getState\<close>.\<close>

lemma getState_ref_reads:
  "usersOf (arrays (store (state w)) (users_ref (fst (getState_ref (store (state w))))))
     = users (getState w)
   \<and> sessionsOf (arrays (store (state w)) (sessions_ref (fst (getState_ref (store (state w))))))
     = sessions (getState w)
   \<and> eventsOf (arrays (store (state w)) (events_ref (fst (getState_ref (store (state w))))))
     = events (getState w)"
  by (simp add: store_def getState_ref_def getState_def usersOf_def sessionsOf_def eventsOf_def)

text \<open>
  The object of \<open>getState_ref\<close> holds the arrays of the simulator: what a caller pushes
  onto its sessions or its events is in the state of the simulator.
\<close>

lemma getState_ref_shares_sessions:
  "stateOf (push (sessions_ref (fst (getState_ref (store s)))) (SessionArray [x])
             (snd (getState_ref (store s))))
     = s\<lparr>sessions := sessions s @ [x]\<rparr>"
  by (simp add: stateOf_def store_def getState_ref_def push_def usersOf_def sessionsOf_def
      eventsOf_def)

lemma getState_ref_shares_events:
  "stateOf (push (events_ref (fst (getState_ref (store s)))) (EventArray [x])
             (snd (getState_ref (store s))))
     = s\<lparr>events := events s @ [x]\<rparr>"
  by (simp add: stateOf_def store_def getState_ref_def push_def usersOf_def sessionsOf_def
      eventsOf_def)

text \<open>
  The array of \<open>getEvents_ref\<close> has the elements of the log and is a new one: whatever a
  caller pushes onto it, the state of the simulator stays what it was.
\<close>

lemma getEvents_ref_copy:
  "eventsOf (arrays (snd (getEvents_ref (store s))) (fst (getEvents_ref (store s)))) = events s
   \<and> stateOf (push (fst (getEvents_ref (store s))) a (snd (getEvents_ref (store s)))) = s"
  by (cases a)
     (simp_all add: stateOf_def store_def getEvents_ref_def push_def usersOf_def sessionsOf_def
        eventsOf_def Let_def)

subsection \<open>The example data\<close>

lemma state_testWorld:
  "state testWorld = \<lparr>users = [adminUser, regularUser], sessions = [], events = [],
      config = defaultConfig, isRunning = False\<rparr>"
  by (simp add: testWorld_def newAuthFlowSimulator_def testOptions_def mergeConfig_def)

lemma platform_testWorld [simp]:
  "clock testWorld = exampleClock" "clock_reads testWorld = 0"
  "rand_digits testWorld = exampleRandom" "random_calls testWorld = 0"
  by (simp_all add: testWorld_def newAuthFlowSimulator_def testOptions_def)

lemma example_users [simp]:
  "email adminUser = ''admin@example.com''" "email regularUser = ''user@example.com''"
  "email secondAdmin = ''user@example.com''"
  "user_id adminUser = ''1''" "user_id regularUser = ''2''" "user_id secondAdmin = ''3''"
  "twoFactorEnabled adminUser" "\<not> twoFactorEnabled regularUser" "twoFactorEnabled secondAdmin"
  by (simp_all add: adminUser_def regularUser_def secondAdmin_def)

lemma example_users_differ [simp]:
  "regularUser \<noteq> secondAdmin" "secondAdmin \<noteq> regularUser"
  by (auto simp: regularUser_def secondAdmin_def)

lemma find_testWorld [simp]:
  "findUserByEmail ''user@example.com'' testWorld = Some regularUser"
  "findUserByEmail ''admin@example.com'' testWorld = Some adminUser"
  "findUserById ''1'' testWorld = Some adminUser"
  "findUserById ''2'' testWorld = Some regularUser"
  "findUserById ''42'' testWorld = None"
  by (simp_all add: findUserByEmail_def findUserById_def state_testWorld)

text \<open>
  The login at \<open>lateWorld\<close> leaves the one session \<open>staleSession\<close>, which expires before
  the next reading of the clock.
\<close>

lemma staleWorld_simps:
  "sessions (state staleWorld) = [staleSession]"
  "users (state staleWorld) = [adminUser, regularUser]"
  "clock staleWorld = lateClock"
  "clock_reads staleWorld = 7"
  "expiresAt staleSession = 1700001800003"
  by (simp_all add: staleWorld_def staleSession_def loginCredentials_def lateWorld_def
      simulateLogin_def newAuthFlowSimulator_def testOptions_def findUserByEmail_def
      validatePassword_def case_prod_beta createSession_simps lateClock_def)

lemma session_id_staleSession:
  "session_id staleSession = exampleRandom 0 @ toString36 (lateClock 0)"
  by (simp add: staleSession_def createSession_def Let_def case_prod_beta generateId_def
      Math_random_digits_def Date_now_def lateWorld_def newAuthFlowSimulator_def
      testOptions_def)












text \<open>
  The login of john at a simulator with the default users, as the README and the basic
  usage example of the repository make it, asks for 2FA and creates no session.
\<close>

lemma default_john_login_requires_2FA:
  "map_sum id (\<lambda>(r, w'). (success r, requires2FA r, session r, sessions (state w')))
     (simulateLogin
        \<lparr>cred_email = ''john@example.com'', password = Some ''password123'',
         rememberMe = Some True\<rparr>
        (newAuthFlowSimulator (opts\<lparr>mockUsers := None\<rparr>) clk rnd))
   = Inr (False, Some True, None, [])"
proof -
  let ?w = "newAuthFlowSimulator (opts\<lparr>mockUsers := None\<rparr>) clk rnd"
  have "map (\<lambda>u. (email u, name u, twoFactorEnabled u)) (users (state ?w)) =
     [(''john@example.com'', ''John Doe'', True),
      (''jane@example.com'', ''Jane Smith'', False),
      (''admin@example.com'', ''Admin User'', True)]"
    by (rule default_users_fields)
  then obtain u1 u2 u3 where "users (state ?w) = [u1, u2, u3]"
    and "email u1 = ''john@example.com''" "twoFactorEnabled u1"
    by (auto simp: map_eq_Cons_conv)
  moreover have "sessions (state ?w) = []"
    by (simp add: newAuthFlowSimulator_def Let_def case_prod_beta)
  ultimately show ?thesis
    by (simp add: simulateLogin_def findUserByEmail_def validatePassword_def)
qed

section \<open>The claims\<close>

subsection \<open>C1: login of a user without 2FA\<close>

text \<open>
  C1, as amended. For every user of the directory without 2FA that the directory resolves
  from its own email (the first entry with that email; by \<open>uniqueEmails_resolves\<close>
  every user when the emails are pairwise distinct), \<open>simulateLogin\<close> with that email and
  any password of length at least 6 returns \<open>success = True\<close>, that user, and a session
  whose \<open>userId\<close> is the id of the user, and the session is appended to the active
  sessions.
\<close>

theorem simulateLogin_without_2FA:
  assumes "findUserByEmail (email u) w = Some u"
    and "\<not> twoFactorEnabled u"
    and "6 \<le> length pw"
  shows "\<exists>s w'. simulateLogin \<lparr>cred_email = email u, password = Some pw, rememberMe = rm\<rparr> w
            = Inr (\<lparr>success = True, user = Some u, session = Some s, error = None,
                     requires2FA = None, requiresPasswordReset = None\<rparr>, w')
          \<and> userId s = user_id u
          \<and> sessions (state w') = sessions (state w) @ [s]"
  using assms
  by (simp add: simulateLogin_def validatePassword_def successWith_def case_prod_beta
      createSession_simps)

theorem simulateLogin_without_2FA_witness:
  "findUserByEmail (email regularUser) testWorld = Some regularUser
   \<and> \<not> twoFactorEnabled regularUser
   \<and> 6 \<le> length ''password123''
   \<and> (\<exists>s w'. simulateLogin \<lparr>cred_email = email regularUser, password = Some ''password123'',
                               rememberMe = None\<rparr> testWorld
            = Inr (\<lparr>success = True, user = Some regularUser, session = Some s, error = None,
                     requires2FA = None, requiresPasswordReset = None\<rparr>, w')
          \<and> userId s = user_id regularUser
          \<and> sessions (state w') = sessions (state testWorld) @ [s])"
  using simulateLogin_without_2FA [of regularUser testWorld "''password123''" None]
  by simp

text \<open>
  C1 as stated, for every user present in the directory, fails where an earlier user has
  the same email: in the directory \<open>[secondAdmin, regularUser]\<close> the user
  \<open>regularUser\<close> is present and has no 2FA, and the login with its email and a password
  of six characters resolves \<open>secondAdmin\<close> and asks for 2FA.
\<close>

theorem simulateLogin_shadowed_user_needs_2FA:
  "regularUser \<in> set (users (state (newAuthFlowSimulator
        (testOptions (Some [secondAdmin, regularUser])) exampleClock exampleRandom)))
   \<and> \<not> twoFactorEnabled regularUser
   \<and> 6 \<le> length ''abcdef''
   \<and> map_sum id fst
        (simulateLogin
           \<lparr>cred_email = email regularUser, password = Some ''abcdef'', rememberMe = None\<rparr>
           (newAuthFlowSimulator (testOptions (Some [secondAdmin, regularUser]))
              exampleClock exampleRandom))
      = Inr \<lparr>success = False, user = Some secondAdmin, session = None,
              error = Some ''Two-factor authentication required'',
              requires2FA = Some True, requiresPasswordReset = None\<rparr>"
  by (simp add: newAuthFlowSimulator_def testOptions_def simulateLogin_def findUserByEmail_def
      validatePassword_def)

subsection \<open>C2: login of a user with 2FA\<close>

text \<open>
  C2, as amended. For every user with 2FA that the directory resolves from its own email
  (the first entry with that email; every user when the emails are pairwise distinct),
  \<open>simulateLogin\<close> with that email and a password of length at least 6 returns
  \<open>success = False\<close>, \<open>requires2FA = True\<close> and that user, with no session in the
  result, and the active sessions are what they were.
\<close>

theorem simulateLogin_with_2FA:
  assumes "findUserByEmail (email u) w = Some u"
    and "twoFactorEnabled u"
    and "6 \<le> length pw"
  shows "\<exists>w'. simulateLogin \<lparr>cred_email = email u, password = Some pw, rememberMe = rm\<rparr> w
            = Inr (\<lparr>success = False, user = Some u, session = None,
                     error = Some ''Two-factor authentication required'',
                     requires2FA = Some True, requiresPasswordReset = None\<rparr>, w')
          \<and> sessions (state w') = sessions (state w)"
  using assms
  by (simp add: simulateLogin_def validatePassword_def)

theorem simulateLogin_with_2FA_witness:
  "findUserByEmail (email adminUser) testWorld = Some adminUser
   \<and> twoFactorEnabled adminUser
   \<and> 6 \<le> length ''password123''
   \<and> (\<exists>w'. simulateLogin \<lparr>cred_email = email adminUser, password = Some ''password123'',
                             rememberMe = Some True\<rparr> testWorld
            = Inr (\<lparr>success = False, user = Some adminUser, session = None,
                     error = Some ''Two-factor authentication required'',
                     requires2FA = Some True, requiresPasswordReset = None\<rparr>, w')
          \<and> sessions (state w') = sessions (state testWorld))"
  using simulateLogin_with_2FA [of adminUser testWorld "''password123''" "Some True"]
  by simp

text \<open>
  C2 as stated, for every user with 2FA, fails where an earlier user has the same email:
  in the directory \<open>[regularUser, secondAdmin]\<close> the user \<open>secondAdmin\<close> has 2FA, and
  the login with its email succeeds as \<open>regularUser\<close> and creates a session.
\<close>

theorem simulateLogin_shadowed_2FA_user_logs_in:
  "secondAdmin \<in> set (users (state (newAuthFlowSimulator
        (testOptions (Some [regularUser, secondAdmin])) exampleClock exampleRandom)))
   \<and> twoFactorEnabled secondAdmin
   \<and> 6 \<le> length ''abcdef''
   \<and> (case simulateLogin
             \<lparr>cred_email = email secondAdmin, password = Some ''abcdef'', rememberMe = None\<rparr>
             (newAuthFlowSimulator (testOptions (Some [regularUser, secondAdmin]))
                exampleClock exampleRandom) of
        Inl e \<Rightarrow> False
      | Inr (r, w') \<Rightarrow>
          success r \<and> requires2FA r = None \<and> user r = Some regularUser
          \<and> map userId (sessions (state w')) = [''2''])"
  by (simp add: newAuthFlowSimulator_def testOptions_def simulateLogin_def findUserByEmail_def
      validatePassword_def successWith_def case_prod_beta createSession_simps)

subsection \<open>C3: the 2FA code\<close>

text \<open>
  C3. For every user id that resolves to a user, \<open>simulate2FA\<close> succeeds if and only if
  the code is exactly six decimal digits. On a match it returns the user and a new
  session, appended to the active sessions, that expires 30 minutes after the reading of
  the clock from which the expiry is computed. On a mismatch it returns the failure
  \<open>Invalid 2FA code\<close> and appends one \<open>2fa-failure\<close> event. The state before the call is
  arbitrary, whether or not a login was made in it: in any two states that resolve the id
  the same code has the same outcome.
\<close>

theorem simulate2FA_six_digits:
  assumes "findUserById uid w = Some u"
  shows "(success (fst (simulate2FA uid c w)) \<longleftrightarrow>
            length (code c) = 6 \<and> list_all isDigit (code c))
       \<and> (length (code c) = 6 \<and> list_all isDigit (code c) \<longrightarrow>
            (\<exists>s w'. simulate2FA uid c w =
                 (\<lparr>success = True, user = Some u, session = Some s, error = None,
                   requires2FA = None, requiresPasswordReset = None\<rparr>, w')
               \<and> userId s = user_id u
               \<and> expiresAt s = clock w (clock_reads w + 3) + 30 * 60 * 1000
               \<and> sessions (state w') = sessions (state w) @ [s]))
       \<and> (\<not> (length (code c) = 6 \<and> list_all isDigit (code c)) \<longrightarrow>
            (\<exists>ev w'. simulate2FA uid c w =
                 (\<lparr>success = False, user = None, session = None,
                   error = Some ''Invalid 2FA code'',
                   requires2FA = None, requiresPasswordReset = None\<rparr>, w')
               \<and> events (state w') = events (state w) @ [ev]
               \<and> ev_type ev = TwoFAFailure \<and> \<not> ev_success ev
               \<and> sessions (state w') = sessions (state w)))
       \<and> (\<forall>w2 u2. findUserById uid w2 = Some u2 \<longrightarrow>
            success (fst (simulate2FA uid c w2)) = success (fst (simulate2FA uid c w)))"
  using assms
  by (simp add: simulate2FA_def validate2FACode_iff successWith_def failure_def case_prod_beta
      createSession_simps events_emitEvent)

theorem simulate2FA_six_digits_witness:
  "findUserById ''1'' testWorld = Some adminUser
   \<and> success (fst (simulate2FA ''1'' \<lparr>code = ''123456'', code_method = Totp\<rparr> testWorld))
   \<and> \<not> success (fst (simulate2FA ''1'' \<lparr>code = ''12345a'', code_method = Totp\<rparr> testWorld))
   \<and> \<not> success (fst (simulate2FA ''1'' \<lparr>code = ''1234567'', code_method = Totp\<rparr> testWorld))
   \<and> (\<exists>s w'. simulate2FA ''1'' \<lparr>code = ''123456'', code_method = Totp\<rparr> testWorld =
                 (\<lparr>success = True, user = Some adminUser, session = Some s, error = None,
                   requires2FA = None, requiresPasswordReset = None\<rparr>, w')
               \<and> userId s = ''1''
               \<and> expiresAt s = exampleClock 3 + 1800000
               \<and> sessions (state w') = [s])"
proof -
  have h: "findUserById ''1'' testWorld = Some adminUser" by simp
  note t = simulate2FA_six_digits [OF h]
  from t [of "\<lparr>code = ''123456'', code_method = Totp\<rparr>"]
    t [of "\<lparr>code = ''12345a'', code_method = Totp\<rparr>"]
    t [of "\<lparr>code = ''1234567'', code_method = Totp\<rparr>"]
  show ?thesis
    by (simp add: isDigit_def state_testWorld)
qed

subsection \<open>C4: the events of a call\<close>

text \<open>
  C4, as amended. A successful \<open>simulateLogin\<close>, \<open>simulate2FA\<close> or
  \<open>simulateOAuthCallback\<close> appends exactly two events: \<open>session-created\<close>, from the
  creation of the session, and then its own \<open>login-success\<close>, \<open>2fa-success\<close> or
  \<open>oauth-callback\<close> as the last one. A login that fails or that requires 2FA, a 2FA
  check with a wrong code, both password reset operations, a successful logout,
  \<open>checkSession\<close> on a missing or on an expired session, \<open>start\<close> and \<open>stop\<close> append
  exactly one event. A call that only reports a missing user or session (\<open>simulate2FA\<close>,
  \<open>simulateLogout\<close>, the user of a session in \<open>checkSession\<close>) and a successful
  \<open>checkSession\<close> append none, and \<open>reset\<close> empties the log.
\<close>

theorem events_appended_per_call:
  "(case simulateLogin c w of
      Inl e \<Rightarrow> True
    | Inr (r, w') \<Rightarrow>
        appended w w' =
          Some (if success r then [SessionCreated, LoginSuccess]
                else if requires2FA r = Some True then [TwoFARequired]
                else [LoginFailure]))
   \<and> appended w (snd (simulate2FA uid cd w)) =
        Some (if success (fst (simulate2FA uid cd w)) then [SessionCreated, TwoFASuccess]
              else if findUserById uid w = None then []
              else [TwoFAFailure])
   \<and> appended w (snd (simulateOAuthCallback cb w)) = Some [SessionCreated, OAuthCallbackEvent]
   \<and> appended w (snd (simulatePasswordResetRequest rq w)) = Some [PasswordResetRequested]
   \<and> appended w (snd (simulatePasswordResetConfirm cf w)) = Some [PasswordResetCompleted]
   \<and> appended w (snd (simulateLogout sid w)) =
        Some (if success (fst (simulateLogout sid w)) then [Logout] else [])
   \<and> appended w (snd (checkSession sid w)) =
        Some (if success (fst (checkSession sid w))
                 \<or> error (fst (checkSession sid w)) = Some ''User not found''
              then [] else [SessionExpired])
   \<and> appended w (start w) = Some [LoginAttempt]
   \<and> appended w (stop w) = Some [Logout]
   \<and> events (state (reset w)) = []"
  using appended_login [where c = c and w = w]
  by (simp only: appended_2FA appended_oauth appended_reset_request appended_reset_confirm
      appended_logout appended_checkSession appended_start_stop events_reset simp_thms)

text \<open>
  C4 as stated, one event per successful login, fails: the login of \<open>regularUser\<close> at
  \<open>testWorld\<close>, whose log is empty, succeeds and leaves two events in the log.
\<close>

theorem successful_login_appends_two_events:
  "events (state testWorld) = []
   \<and> (case simulateLogin loginCredentials testWorld of
        Inl e \<Rightarrow> False
      | Inr (r, w') \<Rightarrow>
          success r \<and> map ev_type (events (state w')) = [SessionCreated, LoginSuccess])"
  by (simp add: simulateLogin_def loginCredentials_def validatePassword_def successWith_def
      case_prod_beta events_emitEvent events_createSession state_testWorld)

subsection \<open>C5: the default users\<close>

text \<open>
  C5 does not hold of the code. The claim, two default users without 2FA and one, the
  admin user, with it, is what the README and the basic usage example of the repository
  rely on: both log john in at the default users as the plain login, the example uses
  the session of that login afterwards, and both mark admin as the user with 2FA.
  \<open>createDefaultUsers\<close> passes \<^verbatim>\<open>true\<close> for john: a simulator constructed without
  \<open>mockUsers\<close> has the three users john, jane and admin in this order, of which one
  (jane) has \<open>twoFactorEnabled = False\<close> and two (john and admin) have
  \<open>twoFactorEnabled = True\<close>, and the documented login of john asks for 2FA
  (\<open>default_john_login_requires_2FA\<close>).
\<close>

theorem default_users_two_factor:
  "map (\<lambda>u. (email u, name u, twoFactorEnabled u))
       (users (state (newAuthFlowSimulator (opts\<lparr>mockUsers := None\<rparr>) clk rnd))) =
     [(''john@example.com'', ''John Doe'', True),
      (''jane@example.com'', ''Jane Smith'', False),
      (''admin@example.com'', ''Admin User'', True)]
   \<and> length (filter (\<lambda>u. \<not> twoFactorEnabled u)
        (users (state (newAuthFlowSimulator (opts\<lparr>mockUsers := None\<rparr>) clk rnd)))) = 1
   \<and> length (filter twoFactorEnabled
        (users (state (newAuthFlowSimulator (opts\<lparr>mockUsers := None\<rparr>) clk rnd)))) = 2"
proof -
  let ?us = "users (state (newAuthFlowSimulator (opts\<lparr>mockUsers := None\<rparr>) clk rnd))"
  have fields: "map (\<lambda>u. (email u, name u, twoFactorEnabled u)) ?us =
     [(''john@example.com'', ''John Doe'', True),
      (''jane@example.com'', ''Jane Smith'', False),
      (''admin@example.com'', ''Admin User'', True)]"
    by (rule default_users_fields)
  then obtain u1 u2 u3 where "?us = [u1, u2, u3]"
    and "twoFactorEnabled u1" "\<not> twoFactorEnabled u2" "twoFactorEnabled u3"
    by (auto simp: map_eq_Cons_conv)
  with fields show ?thesis by simp
qed

text \<open>
  The counts of C5, two users without 2FA and one with it, are not those of the
  simulator that is constructed from options without \<open>mockUsers\<close>.
\<close>

theorem default_users_not_two_without_2FA:
  "\<not> (length (filter (\<lambda>u. \<not> twoFactorEnabled u)
          (users (state (newAuthFlowSimulator (testOptions None) exampleClock exampleRandom))))
        = 2
      \<and> length (filter twoFactorEnabled
          (users (state (newAuthFlowSimulator (testOptions None) exampleClock exampleRandom))))
        = 1)"
proof -
  let ?us = "users (state (newAuthFlowSimulator (testOptions None) exampleClock exampleRandom))"
  have "map (\<lambda>u. (email u, name u, twoFactorEnabled u)) ?us =
     [(''john@example.com'', ''John Doe'', True),
      (''jane@example.com'', ''Jane Smith'', False),
      (''admin@example.com'', ''Admin User'', True)]"
    by (subst testOptions_None) (rule default_users_fields)
  then obtain u1 u2 u3 where "?us = [u1, u2, u3]"
    and "twoFactorEnabled u1" "\<not> twoFactorEnabled u2" "twoFactorEnabled u3"
    by (auto simp: map_eq_Cons_conv)
  then show ?thesis by simp
qed

subsection \<open>C6: the result of a password reset request\<close>

text \<open>
  C6. \<open>simulatePasswordResetRequest\<close> returns the result whose only field is
  \<open>success = True\<close>, with no user, no session and no token, whatever the request and
  the state: any two calls, for an email that resolves to a user or for one that does
  not, and whatever identifier the random source yields for the reset token, return the
  same value.
\<close>

theorem password_reset_request_result:
  "fst (simulatePasswordResetRequest request w) =
     \<lparr>success = True, user = None, session = None, error = None,
      requires2FA = None, requiresPasswordReset = None\<rparr>
   \<and> fst (simulatePasswordResetRequest request w) =
       fst (simulatePasswordResetRequest request' w')"
  by (simp add: simulatePasswordResetRequest_def successOnly_def case_prod_beta
      split: option.splits)

subsection \<open>C7: an expired session\<close>




subsection \<open>C8: short and missing passwords\<close>

text \<open>
  C8, as amended. For every email that resolves to a user, \<open>simulateLogin\<close> with an
  empty password, or with any password string of fewer than six characters, returns the
  failure with the generic error \<open>Invalid credentials\<close> and appends a
  \<open>login-failure\<close> event; it does not throw. \<open>simulateLogin\<close> throws exactly when the
  email resolves to a user and the password is missing, which the declared type of the
  credentials excludes: no call with a password that is a string throws, and no call
  with an email that resolves to no user does.
\<close>

theorem simulateLogin_throws_only_on_missing_password:
  "(findUserByEmail (cred_email c) w = Some u \<and> password c = Some pw \<and> length pw < 6 \<longrightarrow>
      (\<exists>ev w'. simulateLogin c w =
           Inr (\<lparr>success = False, user = None, session = None,
                 error = Some ''Invalid credentials'',
                 requires2FA = None, requiresPasswordReset = None\<rparr>, w')
         \<and> events (state w') = events (state w) @ [ev]
         \<and> ev_type ev = LoginFailure \<and> ev_error ev = Some ''Invalid password''
         \<and> sessions (state w') = sessions (state w)))
   \<and> ((\<exists>e. simulateLogin c w = Inl e) \<longleftrightarrow>
        findUserByEmail (cred_email c) w \<noteq> None \<and> password c = None)"
  by (auto simp add: simulateLogin_def validatePassword_def failure_def events_emitEvent
      case_prod_beta split: option.splits)

theorem simulateLogin_empty_password_witness:
  "findUserByEmail ''user@example.com'' testWorld = Some regularUser
   \<and> length '''' < (6::nat)
   \<and> (\<exists>ev w'. simulateLogin
           \<lparr>cred_email = ''user@example.com'', password = Some '''', rememberMe = None\<rparr>
           testWorld =
           Inr (\<lparr>success = False, user = None, session = None,
                 error = Some ''Invalid credentials'',
                 requires2FA = None, requiresPasswordReset = None\<rparr>, w')
         \<and> events (state w') = events (state testWorld) @ [ev]
         \<and> ev_type ev = LoginFailure \<and> ev_error ev = Some ''Invalid password''
         \<and> sessions (state w') = sessions (state testWorld))
   \<and> (\<nexists>e. simulateLogin
           \<lparr>cred_email = ''user@example.com'', password = Some '''', rememberMe = None\<rparr>
           testWorld = Inl e)"
  using simulateLogin_throws_only_on_missing_password
    [of "\<lparr>cred_email = ''user@example.com'', password = Some '''', rememberMe = None\<rparr>"
        testWorld regularUser "''''"]
  by simp

text \<open>
  C8 as stated, a failure result for a missing password, fails: the email resolves to
  \<open>regularUser\<close>, the password is missing, and the call throws a \<open>TypeError\<close>.
\<close>

theorem simulateLogin_missing_password_throws:
  "findUserByEmail ''user@example.com'' testWorld = Some regularUser
   \<and> simulateLogin
        \<lparr>cred_email = ''user@example.com'', password = None, rememberMe = None\<rparr> testWorld
       = Inl TypeError"
  by (simp add: simulateLogin_def validatePassword_def)

subsection \<open>C9: what getState hands out\<close>

text \<open>
  C9 fails for \<open>getState\<close>. The simulator at \<open>testWorld\<close> has no session. A caller takes
  the object of \<open>getState\<close> and pushes a session of its own making onto the sessions of
  that object: the session is then among the sessions of the simulator, and
  \<open>checkSession\<close> on its id, a failure before, succeeds. (For \<open>getEvents\<close> the claim
  holds: \<open>getEvents_ref_copy\<close>.)
\<close>

theorem getState_exposes_sessions:
  "sessions (stateOf (store (state testWorld))) = []
   \<and> sessions (stateOf (push (sessions_ref (fst (getState_ref (store (state testWorld)))))
                          (SessionArray [forgedSession])
                          (snd (getState_ref (store (state testWorld))))))
       = [forgedSession]
   \<and> fst (checkSession ''forged'' testWorld) = failure ''Session not found''
   \<and> fst (checkSession ''forged''
        (testWorld\<lparr>state :=
           stateOf (push (sessions_ref (fst (getState_ref (store (state testWorld)))))
                     (SessionArray [forgedSession])
                     (snd (getState_ref (store (state testWorld)))))\<rparr>))
       = successWith adminUser forgedSession"
  by (simp add: getState_ref_shares_sessions stateOf_store state_testWorld checkSession_def
      findUserById_def forgedSession_def case_prod_beta exampleClock_def)

subsection \<open>C10: a missing session, a missing user\<close>

text \<open>
  C10. For every session id that no active session has, \<open>simulateLogout\<close> returns the
  failure \<open>Session not found\<close> and leaves the simulator as it was, the log included; and
  \<open>simulate2FA\<close> with a user id that resolves to no user returns the failure
  \<open>User not found\<close> and leaves the simulator as it was, the log included.
\<close>

theorem not_found_changes_nothing:
  "(sid \<notin> session_id ` set (sessions (state w)) \<longrightarrow>
      simulateLogout sid w =
        (\<lparr>success = False, user = None, session = None, error = Some ''Session not found'',
          requires2FA = None, requiresPasswordReset = None\<rparr>, w))
   \<and> (findUserById uid w = None \<longrightarrow>
      simulate2FA uid c w =
        (\<lparr>success = False, user = None, session = None, error = Some ''User not found'',
          requires2FA = None, requiresPasswordReset = None\<rparr>, w))"
proof -
  have "sid \<notin> session_id ` set (sessions (state w)) \<Longrightarrow>
        findIndex (\<lambda>s. session_id s = sid) (sessions (state w)) = None"
    by (auto simp: findIndex_None_iff)
  then show ?thesis
    by (simp add: simulateLogout_def simulate2FA_def failure_def)
qed

theorem not_found_changes_nothing_witness:
  "''no-such-session'' \<notin> session_id ` set (sessions (state staleWorld))
   \<and> simulateLogout ''no-such-session'' staleWorld =
        (\<lparr>success = False, user = None, session = None, error = Some ''Session not found'',
          requires2FA = None, requiresPasswordReset = None\<rparr>, staleWorld)
   \<and> findUserById ''42'' staleWorld = None
   \<and> simulate2FA ''42'' \<lparr>code = ''123456'', code_method = Totp\<rparr> staleWorld =
        (\<lparr>success = False, user = None, session = None, error = Some ''User not found'',
          requires2FA = None, requiresPasswordReset = None\<rparr>, staleWorld)"
proof -
  have a: "''no-such-session'' \<notin> session_id ` set (sessions (state staleWorld))"
    by (simp add: staleWorld_simps session_id_staleSession exampleRandom_def)
  have b: "findUserById ''42'' staleWorld = None"
    by (simp add: findUserById_def staleWorld_simps)
  from not_found_changes_nothing
         [of "''no-such-session''" staleWorld "''42''" "\<lparr>code = ''123456'', code_method = Totp\<rparr>"]
       a b
  show ?thesis by simp
qed

end
